theory Spec2Isabelle
  imports Complex_Main "HOL-Library.Log_Nat"
begin

section \<open>Python values, exceptions and the builtins the importer calls\<close>

text \<open>
  A Python float is a double: a finite value, one of the two infinities, or NaN.
  \<open>Fin x\<close> is the finite double whose value is \<open>x\<close>; the two zeros are not told apart
  (both are falsy, which is all the importer asks of them).
\<close>

datatype pyfloat = Fin real | PosInf | NegInf | NaN

text \<open>
  What \<open>json.load\<close> returns, and what a cell of a pandas row holds: \<open>None\<close>, a bool,
  an int, a float, a str, a list or a dict (a dict as its items; keys are unique).
\<close>

datatype pyval =
    PNone
  | PBool bool
  | PInt int
  | PFloat pyfloat
  | PStr string
  | PList "pyval list"
  | PDict "(string \<times> pyval) list"

text \<open>
  The exception classes that occur. A malformed JSON file raises a subclass of
  \<open>ValueError\<close> and is recorded as \<open>ValueError\<close>; \<open>OSError\<close> stands for every failure to
  open or read a file, \<open>BulkWriteError\<close> for every rejection of a batch by the store.
\<close>

datatype error =
    ValueError
  | TypeError
  | OverflowError
  | AttributeError
  | NameError string
  | OSError
  | BulkWriteError

definition and_then :: "error + 'a \<Rightarrow> ('a \<Rightarrow> error + 'b) \<Rightarrow> error + 'b" where
  "and_then m f = (case m of Inl e \<Rightarrow> Inl e | Inr x \<Rightarrow> f x)"

text \<open>
  The stored document: \<open>dataset_id\<close>, \<open>system_name\<close>, a GeoJSON point whose coordinate
  array is \<open>[longitude, latitude]\<close>, and the metadata dict (its items, in the order of the
  dict literal).
\<close>

record geojson =
  geo_type :: string
  geo_coordinates :: "pyfloat list"

record document =
  dataset_id :: pyval
  system_name :: string
  coordinates :: geojson
  metadata :: "(string \<times> pyval) list"

type_synonym collection = "document list"

text \<open>
  What the code takes from outside the repository and the model takes as parameters:
  \<open>strtod\<close> is the grammar of \<open>float(str)\<close> (\<open>None\<close> where it raises \<open>ValueError\<close>),
  \<open>strtol\<close> the grammar of \<open>int(str)\<close>, and \<open>accepts\<close> says which documents the store
  takes on insert (its index on \<open>coordinates\<close> validates the geometry).
\<close>

record env =
  strtod :: "string \<Rightarrow> pyfloat option"
  strtol :: "string \<Rightarrow> int option"
  accepts :: "document \<Rightarrow> bool"

text \<open>
  \<open>float(n)\<close> for an int rounds to the nearest double, ties to even on the 53-bit
  significand, and raises \<open>OverflowError\<close> when the result would reach \<open>2^1024\<close>, that
  is from \<open>2^1024 - 2^970\<close> on.
\<close>

definition round_to_double :: "int \<Rightarrow> int" where
  "round_to_double n =
     (if \<bar>n\<bar> \<le> 2 ^ 53 then n
      else
        let a = \<bar>n\<bar>;
            e = floorlog 2 (nat a) - 53;
            q = a div 2 ^ e;
            r = a mod 2 ^ e;
            h = 2 ^ (e - 1);
            q' = (if h < r \<or> (r = h \<and> odd q) then q + 1 else q)
        in sgn n * q' * 2 ^ e)"

definition float_of_int :: "int \<Rightarrow> error + pyfloat" where
  "float_of_int n =
     (if 2 ^ 1024 - 2 ^ 970 \<le> \<bar>n\<bar> then Inl OverflowError
      else Inr (Fin (of_int (round_to_double n))))"

fun py_float :: "env \<Rightarrow> pyval \<Rightarrow> error + pyfloat" where
  "py_float env PNone = Inl TypeError"
| "py_float env (PBool b) = Inr (Fin (if b then 1 else 0))"
| "py_float env (PInt n) = float_of_int n"
| "py_float env (PFloat x) = Inr x"
| "py_float env (PStr s) = (case strtod env s of None \<Rightarrow> Inl ValueError | Some x \<Rightarrow> Inr x)"
| "py_float env (PList xs) = Inl TypeError"
| "py_float env (PDict kvs) = Inl TypeError"

text \<open>\<open>int(x)\<close>: truncation of a finite float, no integer for an infinity or NaN.\<close>

fun py_int :: "env \<Rightarrow> pyval \<Rightarrow> error + int" where
  "py_int env PNone = Inl TypeError"
| "py_int env (PBool b) = Inr (if b then 1 else 0)"
| "py_int env (PInt n) = Inr n"
| "py_int env (PFloat (Fin x)) = Inr (if 0 \<le> x then \<lfloor>x\<rfloor> else \<lceil>x\<rceil>)"
| "py_int env (PFloat NaN) = Inl ValueError"
| "py_int env (PFloat PosInf) = Inl OverflowError"
| "py_int env (PFloat NegInf) = Inl OverflowError"
| "py_int env (PStr s) = (case strtol env s of None \<Rightarrow> Inl ValueError | Some n \<Rightarrow> Inr n)"
| "py_int env (PList xs) = Inl TypeError"
| "py_int env (PDict kvs) = Inl TypeError"

text \<open>Truthiness: a float is falsy exactly when it is zero (NaN is truthy).\<close>

definition truthy :: "pyfloat \<Rightarrow> bool" where
  "truthy x = (x \<noteq> Fin 0)"

fun py_falsy :: "pyval \<Rightarrow> bool" where
  "py_falsy PNone = True"
| "py_falsy (PBool b) = (\<not> b)"
| "py_falsy (PInt n) = (n = 0)"
| "py_falsy (PFloat x) = (\<not> truthy x)"
| "py_falsy (PStr s) = (s = [])"
| "py_falsy (PList xs) = (xs = [])"
| "py_falsy (PDict kvs) = (kvs = [])"

text \<open>\<open>pd.isna\<close> on a scalar.\<close>

fun isna :: "pyval \<Rightarrow> bool" where
  "isna PNone = True"
| "isna (PFloat NaN) = True"
| "isna _ = False"

text \<open>
  \<open>item.get(key)\<close>: the value, \<open>None\<close> for an absent key, and \<open>AttributeError\<close> when
  \<open>item\<close> is not a dict.
\<close>

fun py_get :: "pyval \<Rightarrow> string \<Rightarrow> error + pyval" where
  "py_get (PDict kvs) k = Inr (case map_of kvs k of None \<Rightarrow> PNone | Some v \<Rightarrow> v)"
| "py_get PNone k = Inl AttributeError"
| "py_get (PBool b) k = Inl AttributeError"
| "py_get (PInt n) k = Inl AttributeError"
| "py_get (PFloat x) k = Inl AttributeError"
| "py_get (PStr s) k = Inl AttributeError"
| "py_get (PList xs) k = Inl AttributeError"

text \<open>\<open>for item in data\<close>: the elements of a list, the keys of a dict, the characters of a str.\<close>

fun py_iter :: "pyval \<Rightarrow> error + pyval list" where
  "py_iter (PList xs) = Inr xs"
| "py_iter (PDict kvs) = Inr (map (\<lambda>kv. PStr (fst kv)) kvs)"
| "py_iter (PStr s) = Inr (map (\<lambda>c. PStr [c]) s)"
| "py_iter PNone = Inl TypeError"
| "py_iter (PBool b) = Inl TypeError"
| "py_iter (PInt n) = Inl TypeError"
| "py_iter (PFloat x) = Inl TypeError"

text \<open>A pandas row: \<open>row.get(column)\<close> is the cell, \<open>None\<close> for a column the frame lacks.\<close>

type_synonym row = "(string \<times> pyval) list"

definition row_get :: "row \<Rightarrow> string \<Rightarrow> pyval" where
  "row_get row k = (case map_of row k of None \<Rightarrow> PNone | Some v \<Rightarrow> v)"

section \<open>The store, as far as the importer uses it\<close>

text \<open>
  \<open>insert_many\<close> is an ordered bulk write: the documents are inserted in order up to the
  first one the store rejects, and a rejection raises after the earlier ones are stored.
  The result is the number of inserted ids.
\<close>

definition insert_many :: "env \<Rightarrow> document list \<Rightarrow> collection \<Rightarrow> (error + nat) \<times> collection" where
  "insert_many env documents coll =
     (if list_all (accepts env) documents then (Inr (length documents), coll @ documents)
      else (Inl BulkWriteError, coll @ takeWhile (accepts env) documents))"

section \<open>geo_importer.py: the adapters\<close>

text \<open>
  Every adapter runs the same loop: the body of the \<open>try\<close> either appends a document,
  or reaches \<open>continue\<close>, or raises; \<open>except (ValueError, TypeError)\<close> turns these two
  into \<open>continue\<close>, and any other exception leaves the loop.
\<close>

definition caught :: "error \<Rightarrow> bool" where
  "caught e = (e = ValueError \<or> e = TypeError)"

fun for_each :: "('a \<Rightarrow> error + document option) \<Rightarrow> 'a list \<Rightarrow> document list \<Rightarrow> error + document list" where
  "for_each body [] documents = Inr documents"
| "for_each body (item # rest) documents =
     (case body item of
        Inr (Some d) \<Rightarrow> for_each body rest (documents @ [d])
      | Inr None \<Rightarrow> for_each body rest documents
      | Inl e \<Rightarrow> if caught e then for_each body rest documents else Inl e)"

text \<open>The part after the loop: one bulk insert when there is a document, else 0.\<close>

definition insert_documents :: "env \<Rightarrow> document list \<Rightarrow> collection \<Rightarrow> (error + nat) \<times> collection" where
  "insert_documents env documents coll =
     (if documents \<noteq> [] then insert_many env documents coll else (Inr 0, coll))"

subsection \<open>import_proposal_locations\<close>

definition proposal_item :: "env \<Rightarrow> pyval \<Rightarrow> error + document option" where
  "proposal_item env item =
     and_then (py_get item ''latitude'') (\<lambda>lat_field.
     and_then (py_float env lat_field) (\<lambda>latitude.
     and_then (py_get item ''longitude'') (\<lambda>lon_field.
     and_then (py_float env lon_field) (\<lambda>longitude.
       if \<not> (truthy latitude \<and> truthy longitude) then Inr None
       else
         and_then (py_get item ''proposal_id'') (\<lambda>proposal_id.
         and_then (py_get item ''sampling_set'') (\<lambda>sampling_set.
         and_then (py_get item ''description'') (\<lambda>description.
           Inr (Some \<lparr>dataset_id = proposal_id,
                      system_name = ''EMSL'',
                      coordinates = \<lparr>geo_type = ''Point'',
                                     geo_coordinates = [longitude, latitude]\<rparr>,
                      metadata = [(''sampling_set'', sampling_set),
                                  (''description'', description),
                                  (''source'', PStr ''project_locations'')]\<rparr>))))))))"

text \<open>
  The file argument is what \<open>open\<close> and \<open>json.load\<close> give: the parsed value, or the
  exception they raise. The outer handler logs and re-raises.
\<close>

definition import_proposal_locations ::
    "env \<Rightarrow> error + pyval \<Rightarrow> collection \<Rightarrow> (error + nat) \<times> collection" where
  "import_proposal_locations env file coll =
     (case file of
        Inl e \<Rightarrow> (Inl e, coll)
      | Inr data \<Rightarrow>
          if py_falsy data then (Inr 0, coll)
          else
            (case and_then (py_iter data) (\<lambda>items. for_each (proposal_item env) items []) of
               Inl e \<Rightarrow> (Inl e, coll)
             | Inr documents \<Rightarrow> insert_documents env documents coll))"


text \<open>
  The four CSV adapters take what \<open>pd.read_csv\<close> gives: the rows of the frame, or the
  exception it raises; the frame is empty when it has no row. After \<open>float\<close> the two
  coordinates are floats, so \<open>pd.isna\<close> asks whether they are NaN.
\<close>

subsection \<open>import_ess_dive_packages\<close>

text \<open>
  The \<open>row_id\<close> of the metadata is computed inside the same \<open>try\<close>:
  \<open>int(row.get('Unnamed: 0'))\<close> unless that cell is missing.
\<close>

definition ess_dive_row :: "env \<Rightarrow> row \<Rightarrow> error + document option" where
  "ess_dive_row env row =
     and_then (py_float env (row_get row ''centroid_latitude'')) (\<lambda>latitude.
     and_then (py_float env (row_get row ''centroid_longitude'')) (\<lambda>longitude.
       if latitude = NaN \<or> longitude = NaN then Inr None
       else
         and_then (if \<not> isna (row_get row ''Unnamed: 0'')
                   then and_then (py_int env (row_get row ''Unnamed: 0'')) (\<lambda>n. Inr (PInt n))
                   else Inr PNone) (\<lambda>row_id.
           Inr (Some \<lparr>dataset_id = row_get row ''package_id'',
                      system_name = ''ESSDIVE'',
                      coordinates = \<lparr>geo_type = ''Point'',
                                     geo_coordinates = [longitude, latitude]\<rparr>,
                      metadata = [(''source'', PStr ''ESS-DIVE''),
                                  (''row_id'', row_id)]\<rparr>))))"

definition import_ess_dive_packages ::
    "env \<Rightarrow> error + row list \<Rightarrow> collection \<Rightarrow> (error + nat) \<times> collection" where
  "import_ess_dive_packages env file coll =
     (case file of
        Inl e \<Rightarrow> (Inl e, coll)
      | Inr df \<Rightarrow>
          if df = [] then (Inr 0, coll)
          else
            (case for_each (ess_dive_row env) df [] of
               Inl e \<Rightarrow> (Inl e, coll)
             | Inr documents \<Rightarrow> insert_documents env documents coll))"

subsection \<open>import_nmdc_biosamples\<close>

definition nmdc_row :: "env \<Rightarrow> row \<Rightarrow> error + document option" where
  "nmdc_row env row =
     and_then (py_float env (row_get row ''latitude'')) (\<lambda>latitude.
     and_then (py_float env (row_get row ''longitude'')) (\<lambda>longitude.
       if latitude = NaN \<or> longitude = NaN then Inr None
       else
         Inr (Some \<lparr>dataset_id = row_get row ''biosample_id'',
                    system_name = ''NMDC'',
                    coordinates = \<lparr>geo_type = ''Point'',
                                   geo_coordinates = [longitude, latitude]\<rparr>,
                    metadata = [(''source'', PStr ''NMDC-Biosample'')]\<rparr>)))"

definition import_nmdc_biosamples ::
    "env \<Rightarrow> error + row list \<Rightarrow> collection \<Rightarrow> (error + nat) \<times> collection" where
  "import_nmdc_biosamples env file coll =
     (case file of
        Inl e \<Rightarrow> (Inl e, coll)
      | Inr df \<Rightarrow>
          if df = [] then (Inr 0, coll)
          else
            (case for_each (nmdc_row env) df [] of
               Inl e \<Rightarrow> (Inl e, coll)
             | Inr documents \<Rightarrow> insert_documents env documents coll))"

subsection \<open>import_jgi_gold_biosamples\<close>

definition jgi_gold_biosample_row :: "env \<Rightarrow> row \<Rightarrow> error + document option" where
  "jgi_gold_biosample_row env row =
     and_then (py_float env (row_get row ''latitude'')) (\<lambda>latitude.
     and_then (py_float env (row_get row ''longitude'')) (\<lambda>longitude.
       if latitude = NaN \<or> longitude = NaN then Inr None
       else
         Inr (Some \<lparr>dataset_id = row_get row ''gold_id'',
                    system_name = ''JGI-Biosamples'',
                    coordinates = \<lparr>geo_type = ''Point'',
                                   geo_coordinates = [longitude, latitude]\<rparr>,
                    metadata = [(''source'', PStr ''JGI-GOLD-Biosample'')]\<rparr>)))"

definition import_jgi_gold_biosamples ::
    "env \<Rightarrow> error + row list \<Rightarrow> collection \<Rightarrow> (error + nat) \<times> collection" where
  "import_jgi_gold_biosamples env file coll =
     (case file of
        Inl e \<Rightarrow> (Inl e, coll)
      | Inr df \<Rightarrow>
          if df = [] then (Inr 0, coll)
          else
            (case for_each (jgi_gold_biosample_row env) df [] of
               Inl e \<Rightarrow> (Inl e, coll)
             | Inr documents \<Rightarrow> insert_documents env documents coll))"

subsection \<open>import_jgi_gold_organisms\<close>

definition jgi_gold_organism_row :: "env \<Rightarrow> row \<Rightarrow> error + document option" where
  "jgi_gold_organism_row env row =
     and_then (py_float env (row_get row ''latitude'')) (\<lambda>latitude.
     and_then (py_float env (row_get row ''longitude'')) (\<lambda>longitude.
       if latitude = NaN \<or> longitude = NaN then Inr None
       else
         Inr (Some \<lparr>dataset_id = row_get row ''gold_id'',
                    system_name = ''JGI-Organism'',
                    coordinates = \<lparr>geo_type = ''Point'',
                                   geo_coordinates = [longitude, latitude]\<rparr>,
                    metadata = [(''source'', PStr ''JGI-GOLD-Organism'')]\<rparr>)))"

definition import_jgi_gold_organisms ::
    "env \<Rightarrow> error + row list \<Rightarrow> collection \<Rightarrow> (error + nat) \<times> collection" where
  "import_jgi_gold_organisms env file coll =
     (case file of
        Inl e \<Rightarrow> (Inl e, coll)
      | Inr df \<Rightarrow>
          if df = [] then (Inr 0, coll)
          else
            (case for_each (jgi_gold_organism_row env) df [] of
               Inl e \<Rightarrow> (Inl e, coll)
             | Inr documents \<Rightarrow> insert_documents env documents coll))"

section \<open>geo_importer.py: validate_file and main\<close>

text \<open>The \<open>main\<close> of geo_importer.py is \<open>geo_importer_main\<close> here, that of geo_query.py \<open>geo_query_main\<close>.\<close>

record path_state =
  path_exists :: bool
  path_is_file :: bool
  path_readable :: bool

definition validate_file :: "path_state \<Rightarrow> bool" where
  "validate_file p =
     (if \<not> path_exists p then False
      else if \<not> path_is_file p then False
      else if \<not> path_readable p then False
      else True)"

text \<open>
  The command line (\<open>--clear-collection\<close>, \<open>--skip-large-files\<close>) and the data
  directory: whether it exists, and for each of the five file names what the file system
  says of the path and what reading the file gives.
\<close>

record args =
  clear_collection :: bool
  skip_large_files :: bool

record data_dir =
  dir_exists :: bool
  proposal_path :: path_state
  proposal_file :: "error + pyval"
  ess_dive_path :: path_state
  ess_dive_file :: "error + row list"
  nmdc_path :: path_state
  nmdc_file :: "error + row list"
  jgi_biosample_path :: path_state
  jgi_biosample_file :: "error + row list"
  jgi_organism_path :: path_state
  jgi_organism_file :: "error + row list"

text \<open>
  What a run leaves: the exit status, the total of the last log line (\<open>None\<close> when the run
  returns before it), and the collection.
\<close>

record outcome =
  status :: int
  reported_total :: "nat option"
  store :: collection

definition geo_importer_main :: "env \<Rightarrow> args \<Rightarrow> data_dir \<Rightarrow> collection \<Rightarrow> outcome" where
  "geo_importer_main env args dir coll0 =
     (if \<not> dir_exists dir then \<lparr>status = 1, reported_total = None, store = coll0\<rparr>
      else
        let files_valid = [validate_file (proposal_path dir),
                           validate_file (ess_dive_path dir),
                           validate_file (nmdc_path dir),
                           validate_file (jgi_biosample_path dir),
                           validate_file (jgi_organism_path dir)]
        in
          if \<not> list_ex (\<lambda>v. v) files_valid
          then \<lparr>status = 1, reported_total = None, store = coll0\<rparr>
          else
            let coll = (if clear_collection args then [] else coll0);
                total_imported = 0;
                (total_imported, coll) =
                  (if files_valid ! 0 then
                     (case import_proposal_locations env (proposal_file dir) coll of
                        (Inr count, coll') \<Rightarrow> (total_imported + count, coll')
                      | (Inl e, coll') \<Rightarrow> (total_imported, coll'))
                   else (total_imported, coll));
                (total_imported, coll) =
                  (if files_valid ! 1 then
                     (case import_ess_dive_packages env (ess_dive_file dir) coll of
                        (Inr count, coll') \<Rightarrow> (total_imported + count, coll')
                      | (Inl e, coll') \<Rightarrow> (total_imported, coll'))
                   else (total_imported, coll));
                (total_imported, coll) =
                  (if files_valid ! 2 then
                     (case import_nmdc_biosamples env (nmdc_file dir) coll of
                        (Inr count, coll') \<Rightarrow> (total_imported + count, coll')
                      | (Inl e, coll') \<Rightarrow> (total_imported, coll'))
                   else (total_imported, coll));
                (total_imported, coll) =
                  (if \<not> skip_large_files args then
                     let (total_imported, coll) =
                           (if files_valid ! 3 then
                              (case import_jgi_gold_biosamples env (jgi_biosample_file dir) coll of
                                 (Inr count, coll') \<Rightarrow> (total_imported + count, coll')
                               | (Inl e, coll') \<Rightarrow> (total_imported, coll'))
                            else (total_imported, coll))
                     in
                       (if files_valid ! 4 then
                          (case import_jgi_gold_organisms env (jgi_organism_file dir) coll of
                             (Inr count, coll') \<Rightarrow> (total_imported + count, coll')
                           | (Inl e, coll') \<Rightarrow> (total_imported, coll'))
                        else (total_imported, coll))
                   else (total_imported, coll))
            in \<lparr>status = 0, reported_total = Some total_imported, store = coll\<rparr>)"

section \<open>geo_query.py: the store, as far as the queries need it\<close>

text \<open>
  A filter on a field holds of the field's value, or, when the value is an array, of one of
  its elements. An equality filter and an anchored regular expression \<open>^prefix\<close> are the
  two filters whose answer the model computes.
\<close>

definition field_matches :: "(pyval \<Rightarrow> bool) \<Rightarrow> pyval \<Rightarrow> bool" where
  "field_matches P v = (P v \<or> (case v of PList xs \<Rightarrow> list_ex P xs | _ \<Rightarrow> False))"

definition starts_with :: "string \<Rightarrow> pyval \<Rightarrow> bool" where
  "starts_with p v = (case v of PStr s \<Rightarrow> take (length p) s = p | _ \<Rightarrow> False)"

definition count_documents :: "collection \<Rightarrow> (document \<Rightarrow> bool) \<Rightarrow> int" where
  "count_documents coll f = int (length (filter f coll))"

text \<open>
  The \<open>$group\<close> stage of \<open>get_stats\<close>: no group for an empty collection, else one, with
  the least and greatest element 1 (latitude) and element 0 (longitude) of the coordinate
  arrays, in the store's order on numbers (NaN below every number).
\<close>

fun float_rank :: "pyfloat \<Rightarrow> nat" where
  "float_rank NaN = 0"
| "float_rank NegInf = 1"
| "float_rank (Fin x) = 2"
| "float_rank PosInf = 3"

fun float_le :: "pyfloat \<Rightarrow> pyfloat \<Rightarrow> bool" where
  "float_le (Fin x) (Fin y) = (x \<le> y)"
| "float_le a b = (float_rank a \<le> float_rank b)"

definition array_elem_at :: "pyfloat list \<Rightarrow> nat \<Rightarrow> pyfloat option" where
  "array_elem_at xs i = (if i < length xs then Some (xs ! i) else None)"

fun least_of :: "pyfloat list \<Rightarrow> pyfloat option" where
  "least_of [] = None"
| "least_of (x # xs) =
     (case least_of xs of None \<Rightarrow> Some x | Some m \<Rightarrow> Some (if float_le x m then x else m))"

fun greatest_of :: "pyfloat list \<Rightarrow> pyfloat option" where
  "greatest_of [] = None"
| "greatest_of (x # xs) =
     (case greatest_of xs of None \<Rightarrow> Some x | Some m \<Rightarrow> Some (if float_le m x then x else m))"

record bounds_group =
  minLat :: "pyfloat option"
  maxLat :: "pyfloat option"
  minLng :: "pyfloat option"
  maxLng :: "pyfloat option"

definition aggregate_bounds :: "collection \<Rightarrow> bounds_group list" where
  "aggregate_bounds coll =
     (if coll = [] then []
      else
        let lats = List.map_filter (\<lambda>d. array_elem_at (geo_coordinates (coordinates d)) 1) coll;
            lngs = List.map_filter (\<lambda>d. array_elem_at (geo_coordinates (coordinates d)) 0) coll
        in [\<lparr>minLat = least_of lats, maxLat = greatest_of lats,
              minLng = least_of lngs, maxLng = greatest_of lngs\<rparr>])"

section \<open>geo_query.py: GeoQuery\<close>

subsection \<open>get_stats\<close>

text \<open>
  The integer names the function binds are kept as its scope, in the order of the
  assignments; the module binds none of the names the function reads. Reading a name that
  is not bound raises \<open>NameError\<close>. A dict display with a repeated key keeps the last value.
\<close>

definition read_name :: "(string \<times> int) list \<Rightarrow> string \<Rightarrow> error + int" where
  "read_name scope name = (case map_of scope name of None \<Rightarrow> Inl (NameError name) | Some v \<Rightarrow> Inr v)"

fun dict_set :: "string \<Rightarrow> 'v \<Rightarrow> (string \<times> 'v) list \<Rightarrow> (string \<times> 'v) list" where
  "dict_set k v [] = [(k, v)]"
| "dict_set k v (kv # d) = (if fst kv = k then (k, v) # d else kv # dict_set k v d)"

definition dict_display :: "(string \<times> 'v) list \<Rightarrow> (string \<times> 'v) list" where
  "dict_display kvs = fold (\<lambda>kv d. dict_set (fst kv) (snd kv) d) kvs []"

record stats_bounds =
  bound_south :: "pyfloat option"
  bound_north :: "pyfloat option"
  bound_west :: "pyfloat option"
  bound_east :: "pyfloat option"

record stats =
  stats_total :: int
  stats_dataset_counts :: "(string \<times> int) list"
  stats_bounds :: "stats_bounds option"

definition get_stats :: "collection \<Rightarrow> error + stats" where
  "get_stats coll =
     (let scope = [(''total'', count_documents coll (\<lambda>d. True)),
                   (''emsl_count'',
                      count_documents coll (\<lambda>d. field_matches (starts_with ''emsl'') (dataset_id d))),
                   (''ess_dive_count'',
                      count_documents coll (\<lambda>d. field_matches (starts_with ''ess-dive'') (dataset_id d))),
                   (''nmdc_count'',
                      count_documents coll (\<lambda>d. field_matches (starts_with ''nmdc:'') (dataset_id d))),
                   (''jgi_count'',
                      count_documents coll (\<lambda>d. field_matches (starts_with ''jgi:'') (dataset_id d)))];
          bounds = aggregate_bounds coll;
          boundary = (case bounds of [] \<Rightarrow> None | b # _ \<Rightarrow> Some b)
      in
        and_then (read_name scope ''total'') (\<lambda>total.
        and_then (read_name scope ''proposal_count'') (\<lambda>proposals.
        and_then (read_name scope ''ess_dive_count'') (\<lambda>ess_dive.
        and_then (read_name scope ''nmdc_count'') (\<lambda>nmdc.
        and_then (read_name scope ''jgi_count'') (\<lambda>jgi.
        and_then (read_name scope ''total'') (\<lambda>total'.
        and_then (read_name scope ''proposal_count'') (\<lambda>proposals'.
        and_then (read_name scope ''ess_dive_count'') (\<lambda>ess_dive'.
        and_then (read_name scope ''nmdc_count'') (\<lambda>nmdc'.
          Inr \<lparr>stats_total = total,
               stats_dataset_counts =
                 dict_display [(''proposals'', proposals),
                               (''ess_dive'', ess_dive),
                               (''nmdc'', nmdc),
                               (''nmdc'', jgi),
                               (''other'', total' - (proposals' + ess_dive' + nmdc'))],
               stats_bounds =
                 (case boundary of
                    None \<Rightarrow> None
                  | Some b \<Rightarrow> Some \<lparr>bound_south = minLat b, bound_north = maxLat b,
                                    bound_west = minLng b, bound_east = maxLng b\<rparr>)\<rparr>))))))))))"

subsection \<open>find_by_dataset\<close>

text \<open>
  \<open>collection.find({'dataset_id': dataset_id})\<close>, read to the end: the answer, and the
  collection, which a read leaves as it is.
\<close>

definition find_by_dataset :: "collection \<Rightarrow> string \<Rightarrow> document list \<times> collection" where
  "find_by_dataset coll ident =
     (filter (\<lambda>d. field_matches (\<lambda>v. v = PStr ident) (dataset_id d)) coll, coll)"

subsection \<open>find_in_box and find_nearby\<close>

text \<open>
  Both methods build a geospatial filter and hand it to the store with the limit; which
  documents satisfy the filter is computed by the store. The model keeps the request.
\<close>

datatype geo_filter =
    GeoWithinPolygon "pyfloat list list list"
  | NearPoint "pyfloat list" int

datatype request =
    CountDocuments
  | Aggregate
  | FindDataset string
  | FindGeo geo_filter int
  | FindAll int

definition find_in_box :: "pyfloat \<Rightarrow> pyfloat \<Rightarrow> pyfloat \<Rightarrow> pyfloat \<Rightarrow> int \<Rightarrow> request" where
  "find_in_box west south east north max_results =
     FindGeo (GeoWithinPolygon [[[west, south], [east, south], [east, north],
                                 [west, north], [west, south]]]) max_results"

definition find_nearby :: "pyfloat \<Rightarrow> pyfloat \<Rightarrow> int \<Rightarrow> int \<Rightarrow> request" where
  "find_nearby lat lng distance max_results = FindGeo (NearPoint [lng, lat] distance) max_results"

section \<open>geo_query.py: main\<close>

datatype action = Stats | Dataset | Box | Nearby | Map

record query_args =
  arg_action :: action
  arg_dataset_id :: "string option"
  arg_lat :: "pyfloat option"
  arg_lng :: "pyfloat option"
  arg_distance :: int
  arg_west :: "pyfloat option"
  arg_south :: "pyfloat option"
  arg_east :: "pyfloat option"
  arg_north :: "pyfloat option"
  arg_limit :: int

text \<open>
  A run of the query tool gives its exit status, or the exception that leaves \<open>main\<close>, and
  the requests it sent to the store, in order. The output sinks are not part of the model.
  An option the command line does not give is \<open>None\<close>; \<open>--distance\<close> and \<open>--limit\<close> have
  the defaults of the parser. \<open>not args.dataset_id\<close> holds of \<open>None\<close> and of the empty
  string.
\<close>

definition geo_query_main :: "query_args \<Rightarrow> collection \<Rightarrow> (error + int) \<times> request list" where
  "geo_query_main a coll =
     (case arg_action a of
        Stats \<Rightarrow>
          (case get_stats coll of
             Inl e \<Rightarrow> (Inl e, [CountDocuments, CountDocuments, CountDocuments, CountDocuments,
                               CountDocuments, Aggregate])
           | Inr st \<Rightarrow> (Inr 0, [CountDocuments, CountDocuments, CountDocuments, CountDocuments,
                                CountDocuments, Aggregate]))
      | Dataset \<Rightarrow>
          (case arg_dataset_id a of
             None \<Rightarrow> (Inr 1, [])
           | Some ident \<Rightarrow> if ident = [] then (Inr 1, []) else (Inr 0, [FindDataset ident]))
      | Box \<Rightarrow>
          (case (arg_west a, arg_south a, arg_east a, arg_north a) of
             (Some west, Some south, Some east, Some north) \<Rightarrow>
               (Inr 0, [find_in_box west south east north (arg_limit a)])
           | _ \<Rightarrow> (Inr 1, []))
      | Nearby \<Rightarrow>
          (case (arg_lat a, arg_lng a) of
             (Some lat, Some lng) \<Rightarrow> (Inr 0, [find_nearby lat lng (arg_distance a) (arg_limit a)])
           | _ \<Rightarrow> (Inr 1, []))
      | Map \<Rightarrow> (Inr 0, [FindAll (arg_limit a)]))"

section \<open>Notions the properties are stated with\<close>

text \<open>
  The validity predicate of the data model (section 3 of the specification): both
  coordinates finite, longitude in \<open>[-180, 180]\<close>, latitude in \<open>[-90, 90]\<close>. No function
  of the code computes it.
\<close>

definition valid_coordinate_pair :: "pyfloat \<Rightarrow> pyfloat \<Rightarrow> bool" where
  "valid_coordinate_pair longitude latitude =
     (case (longitude, latitude) of
        (Fin x, Fin y) \<Rightarrow> - 180 \<le> x \<and> x \<le> 180 \<and> - 90 \<le> y \<and> y \<le> 90
      | _ \<Rightarrow> False)"

text \<open>
  A document carries the coordinates of an item when \<open>float\<close> succeeds on the item's two
  coordinate fields and the document's coordinate array is the two results, longitude
  first. For a row of a CSV file the two results are moreover not NaN.
\<close>

definition coordinates_parsed :: "env \<Rightarrow> pyval \<Rightarrow> pyval \<Rightarrow> document \<Rightarrow> bool" where
  "coordinates_parsed env lat_field lon_field d =
     (case (py_float env lat_field, py_float env lon_field) of
        (Inr latitude, Inr longitude) \<Rightarrow> geo_coordinates (coordinates d) = [longitude, latitude]
      | _ \<Rightarrow> False)"

definition row_parsed :: "env \<Rightarrow> string \<Rightarrow> string \<Rightarrow> document \<Rightarrow> row \<Rightarrow> bool" where
  "row_parsed env lat_name lon_name d row =
     (coordinates_parsed env (row_get row lat_name) (row_get row lon_name) d \<and>
      py_float env (row_get row lat_name) \<noteq> Inr NaN \<and>
      py_float env (row_get row lon_name) \<noteq> Inr NaN)"

definition item_parsed :: "env \<Rightarrow> document \<Rightarrow> pyval \<Rightarrow> bool" where
  "item_parsed env d item =
     (case (py_get item ''latitude'', py_get item ''longitude'') of
        (Inr lat_field, Inr lon_field) \<Rightarrow> coordinates_parsed env lat_field lon_field d
      | _ \<Rightarrow> False)"

text \<open>The rows of a CSV file and the items of the JSON file that the loops run over.\<close>

definition rows_of :: "error + row list \<Rightarrow> row list" where
  "rows_of file = (case file of Inl e \<Rightarrow> [] | Inr df \<Rightarrow> df)"

definition items_of :: "error + pyval \<Rightarrow> pyval list" where
  "items_of file =
     (case file of
        Inl e \<Rightarrow> []
      | Inr data \<Rightarrow> (case py_iter data of Inl e \<Rightarrow> [] | Inr items \<Rightarrow> items))"

text \<open>
  The pipeline as section 4.3 of the specification words it: every enabled source is run
  on the collection the earlier ones left, whether they succeeded or raised, and the
  counts of those that succeeded are collected. The three small sources are enabled when
  their file is valid, the two large ones when moreover \<open>--skip-large-files\<close> is not given.
\<close>

fun run_sources ::
    "(bool \<times> (collection \<Rightarrow> (error + nat) \<times> collection)) list \<Rightarrow> collection
      \<Rightarrow> nat list \<times> collection" where
  "run_sources [] coll = ([], coll)"
| "run_sources ((enabled, importer) # rest) coll =
     (if enabled then
        (case importer coll of
           (Inr count, coll') \<Rightarrow> (count # fst (run_sources rest coll'), snd (run_sources rest coll'))
         | (Inl e, coll') \<Rightarrow> run_sources rest coll')
      else run_sources rest coll)"

definition configured_sources ::
    "env \<Rightarrow> args \<Rightarrow> data_dir \<Rightarrow> (bool \<times> (collection \<Rightarrow> (error + nat) \<times> collection)) list" where
  "configured_sources env args dir =
     [(validate_file (proposal_path dir), import_proposal_locations env (proposal_file dir)),
      (validate_file (ess_dive_path dir), import_ess_dive_packages env (ess_dive_file dir)),
      (validate_file (nmdc_path dir), import_nmdc_biosamples env (nmdc_file dir)),
      (\<not> skip_large_files args \<and> validate_file (jgi_biosample_path dir),
         import_jgi_gold_biosamples env (jgi_biosample_file dir)),
      (\<not> skip_large_files args \<and> validate_file (jgi_organism_path dir),
         import_jgi_gold_organisms env (jgi_organism_file dir))]"

text \<open>Some source file is valid.\<close>

definition any_valid :: "data_dir \<Rightarrow> bool" where
  "any_valid dir =
     (validate_file (proposal_path dir) \<or> validate_file (ess_dive_path dir) \<or>
      validate_file (nmdc_path dir) \<or> validate_file (jgi_biosample_path dir) \<or>
      validate_file (jgi_organism_path dir))"

text \<open>One guarded block of \<open>main\<close>, as a step on the pair of the total and the collection.\<close>

fun guarded_step ::
    "bool \<Rightarrow> (collection \<Rightarrow> (error + nat) \<times> collection) \<Rightarrow> nat \<times> collection \<Rightarrow> nat \<times> collection" where
  "guarded_step enabled importer (t, c) =
     (if enabled then
        (case importer c of
           (Inr count, coll') \<Rightarrow> (t + count, coll')
         | (Inl e, coll') \<Rightarrow> (t, coll'))
      else (t, c))"

section \<open>Properties of the adapters\<close>

lemma for_each_skip:
  "body item = Inr None \<Longrightarrow>
   for_each body (before @ item # rest) docs = for_each body (before @ rest) docs"
  by (induction before arbitrary: docs) (auto split: sum.splits option.splits)

text \<open>
  Claim C10. A proposal item whose latitude or longitude parses to exactly \<open>0.0\<close> yields
  no record: the body of the loop reaches \<open>continue\<close>, and the documents of the file are
  those of the file without the item.
\<close>

theorem proposal_zero_coordinate_skipped:
  assumes "py_get item ''latitude'' = Inr a" and "py_float env a = Inr latitude"
    and "py_get item ''longitude'' = Inr b" and "py_float env b = Inr longitude"
    and "latitude = Fin 0 \<or> longitude = Fin 0"
  shows "proposal_item env item = Inr None \<and>
         for_each (proposal_item env) (before @ item # rest) docs =
         for_each (proposal_item env) (before @ rest) docs"
proof -
  have skip: "proposal_item env item = Inr None"
    using assms by (auto simp: proposal_item_def and_then_def truthy_def)
  then show ?thesis
    by (simp add: for_each_skip)
qed

theorem proposal_zero_coordinate_skipped_witness:
  "py_get (PDict [(''latitude'', PFloat (Fin 0)), (''longitude'', PFloat (Fin (-119.3))),
                  (''proposal_id'', PStr ''P1'')]) ''latitude'' = Inr (PFloat (Fin 0))
   \<and> py_float \<lparr>strtod = \<lambda>s. None, strtol = \<lambda>s. None, accepts = \<lambda>d. True\<rparr> (PFloat (Fin 0))
       = Inr (Fin 0)
   \<and> proposal_item \<lparr>strtod = \<lambda>s. None, strtol = \<lambda>s. None, accepts = \<lambda>d. True\<rparr>
       (PDict [(''latitude'', PFloat (Fin 0)), (''longitude'', PFloat (Fin (-119.3))),
               (''proposal_id'', PStr ''P1'')]) = Inr None
   \<and> for_each (proposal_item \<lparr>strtod = \<lambda>s. None, strtol = \<lambda>s. None, accepts = \<lambda>d. True\<rparr>)
       [PDict [(''latitude'', PFloat (Fin 0)), (''longitude'', PFloat (Fin (-119.3))),
               (''proposal_id'', PStr ''P1'')]] [] = Inr []"
  using proposal_zero_coordinate_skipped
    [of "PDict [(''latitude'', PFloat (Fin 0)), (''longitude'', PFloat (Fin (-119.3))),
                (''proposal_id'', PStr ''P1'')]"
        "PFloat (Fin 0)" "\<lparr>strtod = \<lambda>s. None, strtol = \<lambda>s. None, accepts = \<lambda>d. True\<rparr>"
        "Fin 0" "PFloat (Fin (-119.3))" "Fin (-119.3)" "[]" "[]" "[]"]
  by simp

text \<open>
  Claim C2, at an item on the equator. Both coordinate fields are numbers in range, and
  the proposal adapter stores nothing and returns 0, where the claim asks for one record with
  coordinates \<open>(-119.3, 0.0)\<close>. The NMDC adapter, given the same two values, builds that
  record.
\<close>

theorem equator_item_dropped:
  "import_proposal_locations env
     (Inr (PList [PDict [(''latitude'', PFloat (Fin 0)),
                         (''longitude'', PFloat (Fin (-119.3))),
                         (''proposal_id'', PStr ''P1'')]])) coll = (Inr 0, coll)
   \<and> nmdc_row env [(''latitude'', PFloat (Fin 0)),
                    (''longitude'', PFloat (Fin (-119.3))),
                    (''biosample_id'', PStr ''P1'')]
     = Inr (Some \<lparr>dataset_id = PStr ''P1'', system_name = ''NMDC'',
                   coordinates = \<lparr>geo_type = ''Point'',
                                  geo_coordinates = [Fin (-119.3), Fin 0]\<rparr>,
                   metadata = [(''source'', PStr ''NMDC-Biosample'')]\<rparr>)"
  by (simp add: import_proposal_locations_def proposal_item_def nmdc_row_def row_get_def
      and_then_def truthy_def insert_documents_def)

text \<open>
  A row on which \<open>float\<close> raises \<open>ValueError\<close> or \<open>TypeError\<close> (a missing field, a
  text that is no number) is skipped, and the documents of the file are those of the
  file without the row. The exceptions of \<open>float\<close> are these two and \<open>OverflowError\<close>.
\<close>

lemma for_each_caught:
  "body item = Inl e \<Longrightarrow> caught e \<Longrightarrow>
   for_each body (before @ item # rest) docs = for_each body (before @ rest) docs"
  by (induction before arbitrary: docs) (auto split: sum.splits option.splits)

lemma py_float_raises:
  "py_float env v = Inl e \<Longrightarrow> e = ValueError \<or> e = TypeError \<or> e = OverflowError"
  by (cases v) (auto simp: float_of_int_def split: if_splits option.splits)

lemma nmdc_row_bad_latitude_skipped:
  assumes "py_float env (row_get row ''latitude'') = Inl e" and "caught e"
  shows "for_each (nmdc_row env) (before @ row # rest) docs =
         for_each (nmdc_row env) (before @ rest) docs"
proof -
  have "nmdc_row env row = Inl e"
    using assms(1) by (simp add: nmdc_row_def and_then_def)
  then show ?thesis
    using assms(2) by (rule for_each_caught)
qed

text \<open>
  Claim C7, at a file of two items whose first has the integer \<open>2^1024\<close> as latitude.
  \<open>float\<close> raises \<open>OverflowError\<close>, which the handler of the loop does not catch: the
  adapter raises, nothing is stored, and the second item, which alone gives a document, is
  never converted.
\<close>

theorem huge_integer_aborts_file:
  "import_proposal_locations env
     (Inr (PList [PDict [(''latitude'', PInt (2 ^ 1024)),
                         (''longitude'', PFloat (Fin (-119.3))),
                         (''proposal_id'', PStr ''P1'')],
                  PDict [(''latitude'', PFloat (Fin 46.3)),
                         (''longitude'', PFloat (Fin (-119.3))),
                         (''proposal_id'', PStr ''P2'')]])) coll = (Inl OverflowError, coll)
   \<and> for_each (proposal_item env)
        [PDict [(''latitude'', PFloat (Fin 46.3)),
                (''longitude'', PFloat (Fin (-119.3))),
                (''proposal_id'', PStr ''P2'')]] []
      = Inr [\<lparr>dataset_id = PStr ''P2'', system_name = ''EMSL'',
               coordinates = \<lparr>geo_type = ''Point'',
                              geo_coordinates = [Fin (-119.3), Fin 46.3]\<rparr>,
               metadata = [(''sampling_set'', PNone), (''description'', PNone),
                           (''source'', PStr ''project_locations'')]\<rparr>]"
  by (simp add: import_proposal_locations_def proposal_item_def
      and_then_def float_of_int_def caught_def truthy_def)

lemma for_each_built:
  "for_each body items acc = Inr docs \<Longrightarrow> d \<in> set docs \<Longrightarrow>
   d \<in> set acc \<or> (\<exists>item \<in> set items. body item = Inr (Some d))"
proof (induction items arbitrary: acc)
  case Nil
  then show ?case by simp
next
  case (Cons item items)
  show ?case
  proof (cases "body item")
    case (Inl e)
    with Cons.prems have "caught e" and "for_each body items acc = Inr docs"
      by (auto split: if_splits)
    with Cons.IH Cons.prems(2) show ?thesis by auto
  next
    case (Inr r)
    show ?thesis
    proof (cases r)
      case None
      with Inr Cons.prems have "for_each body items acc = Inr docs" by simp
      with Cons.IH Cons.prems(2) show ?thesis by auto
    next
      case (Some d')
      with Inr Cons.prems have "for_each body items (acc @ [d']) = Inr docs" by simp
      from Cons.IH[OF this Cons.prems(2)] Inr Some show ?thesis by auto
    qed
  qed
qed

lemma insert_documents_subset:
  "d \<in> set (snd (insert_documents env docs coll)) \<Longrightarrow> d \<in> set coll \<or> d \<in> set docs"
  by (auto simp: insert_documents_def insert_many_def split: if_splits dest: set_takeWhileD)

lemma stored_from_loop:
  assumes "d \<in> set (snd (case for_each body items [] of
                             Inl e \<Rightarrow> (Inl e, coll)
                           | Inr documents \<Rightarrow> insert_documents env documents coll))"
  shows "d \<in> set coll \<or> (\<exists>item \<in> set items. body item = Inr (Some d))"
proof (cases "for_each body items []")
  case (Inl e)
  with assms show ?thesis by simp
next
  case (Inr docs)
  with assms have "d \<in> set coll \<or> d \<in> set docs"
    by (auto dest: insert_documents_subset)
  with for_each_built[OF Inr] show ?thesis by auto
qed

lemma proposal_item_parsed:
  "proposal_item env item = Inr (Some d) \<Longrightarrow> item_parsed env d item"
  by (auto simp: proposal_item_def item_parsed_def coordinates_parsed_def and_then_def
      split: sum.splits if_splits)

lemma ess_dive_row_parsed:
  "ess_dive_row env row = Inr (Some d) \<Longrightarrow>
   row_parsed env ''centroid_latitude'' ''centroid_longitude'' d row"
  by (auto simp: ess_dive_row_def row_parsed_def coordinates_parsed_def and_then_def
      split: sum.splits if_splits)

lemma nmdc_row_parsed:
  "nmdc_row env row = Inr (Some d) \<Longrightarrow> row_parsed env ''latitude'' ''longitude'' d row"
  by (auto simp: nmdc_row_def row_parsed_def coordinates_parsed_def and_then_def
      split: sum.splits if_splits)

lemma jgi_gold_biosample_row_parsed:
  "jgi_gold_biosample_row env row = Inr (Some d) \<Longrightarrow> row_parsed env ''latitude'' ''longitude'' d row"
  by (auto simp: jgi_gold_biosample_row_def row_parsed_def coordinates_parsed_def and_then_def
      split: sum.splits if_splits)

lemma jgi_gold_organism_row_parsed:
  "jgi_gold_organism_row env row = Inr (Some d) \<Longrightarrow> row_parsed env ''latitude'' ''longitude'' d row"
  by (auto simp: jgi_gold_organism_row_def row_parsed_def coordinates_parsed_def and_then_def
      split: sum.splits if_splits)

lemma proposal_stored:
  assumes "d \<in> set (snd (import_proposal_locations env file coll))"
  shows "d \<in> set coll \<or> list_ex (item_parsed env d) (items_of file)"
proof (cases "file")
  case (Inl e)
  with assms show ?thesis by (simp add: import_proposal_locations_def)
next
  case (Inr data)
  show ?thesis
  proof (cases "py_falsy data")
    case True
    with Inr assms show ?thesis by (simp add: import_proposal_locations_def)
  next
    case False
    show ?thesis
    proof (cases "py_iter data")
      case (Inl e)
      with Inr False assms show ?thesis
        by (simp add: import_proposal_locations_def and_then_def)
    next
      case items: (Inr items)
      with Inr False assms
      have "d \<in> set (snd (case for_each (proposal_item env) items [] of
                             Inl e \<Rightarrow> (Inl e, coll)
                           | Inr documents \<Rightarrow> insert_documents env documents coll))"
        by (simp add: import_proposal_locations_def and_then_def)
      from stored_from_loop[OF this] Inr items show ?thesis
        by (auto simp: items_of_def list_ex_iff dest: proposal_item_parsed)
    qed
  qed
qed

lemma csv_stored:
  assumes "d \<in> set (snd (case file of
        Inl e \<Rightarrow> (Inl e, coll)
      | Inr df \<Rightarrow>
          if df = [] then (Inr 0, coll)
          else
            (case for_each body df [] of
               Inl e \<Rightarrow> (Inl e, coll)
             | Inr documents \<Rightarrow> insert_documents env documents coll)))"
    and "\<And>row. body row = Inr (Some d) \<Longrightarrow> P row"
  shows "d \<in> set coll \<or> list_ex P (rows_of file)"
proof (cases "file")
  case (Inl e)
  with assms(1) show ?thesis by simp
next
  case (Inr df)
  show ?thesis
  proof (cases "df = []")
    case True
    with Inr assms(1) show ?thesis by simp
  next
    case False
    with Inr assms(1)
    have "d \<in> set (snd (case for_each body df [] of
                             Inl e \<Rightarrow> (Inl e, coll)
                           | Inr documents \<Rightarrow> insert_documents env documents coll))"
      by simp
    from stored_from_loop[OF this] Inr assms(2) show ?thesis
      by (auto simp: rows_of_def list_ex_iff)
  qed
qed

text \<open>
  Claim C1, as amended. A document is built for an item, and so can reach the store, only
  if \<open>float\<close> parses both coordinate fields of the item, and then it carries the two
  results; the CSV adapters build none for a NaN. Hence an item with a missing or
  non-numeric coordinate gives no document. Every document in the collection after an import
  was there before or was built from an item of the file in this way. The adapters check
  neither finiteness nor range.
\<close>

theorem stored_documents_have_parsed_coordinates:
  "(proposal_item env item = Inr (Some d) \<longrightarrow> item_parsed env d item)
   \<and> (ess_dive_row env row = Inr (Some d)
        \<longrightarrow> row_parsed env ''centroid_latitude'' ''centroid_longitude'' d row)
   \<and> (nmdc_row env row = Inr (Some d) \<longrightarrow> row_parsed env ''latitude'' ''longitude'' d row)
   \<and> (jgi_gold_biosample_row env row = Inr (Some d)
        \<longrightarrow> row_parsed env ''latitude'' ''longitude'' d row)
   \<and> (jgi_gold_organism_row env row = Inr (Some d)
        \<longrightarrow> row_parsed env ''latitude'' ''longitude'' d row)
   \<and> (d \<in> set (snd (import_proposal_locations env json_file coll))
        \<longrightarrow> d \<in> set coll \<or> list_ex (item_parsed env d) (items_of json_file))
   \<and> (d \<in> set (snd (import_ess_dive_packages env csv_file coll))
        \<longrightarrow> d \<in> set coll \<or>
            list_ex (row_parsed env ''centroid_latitude'' ''centroid_longitude'' d) (rows_of csv_file))
   \<and> (d \<in> set (snd (import_nmdc_biosamples env csv_file coll))
        \<longrightarrow> d \<in> set coll \<or> list_ex (row_parsed env ''latitude'' ''longitude'' d) (rows_of csv_file))
   \<and> (d \<in> set (snd (import_jgi_gold_biosamples env csv_file coll))
        \<longrightarrow> d \<in> set coll \<or> list_ex (row_parsed env ''latitude'' ''longitude'' d) (rows_of csv_file))
   \<and> (d \<in> set (snd (import_jgi_gold_organisms env csv_file coll))
        \<longrightarrow> d \<in> set coll \<or> list_ex (row_parsed env ''latitude'' ''longitude'' d) (rows_of csv_file))"
proof (intro conjI impI)
  show "item_parsed env d item" if "proposal_item env item = Inr (Some d)"
    using that by (rule proposal_item_parsed)
  show "row_parsed env ''centroid_latitude'' ''centroid_longitude'' d row"
    if "ess_dive_row env row = Inr (Some d)"
    using that by (rule ess_dive_row_parsed)
  show "row_parsed env ''latitude'' ''longitude'' d row" if "nmdc_row env row = Inr (Some d)"
    using that by (rule nmdc_row_parsed)
  show "row_parsed env ''latitude'' ''longitude'' d row"
    if "jgi_gold_biosample_row env row = Inr (Some d)"
    using that by (rule jgi_gold_biosample_row_parsed)
  show "row_parsed env ''latitude'' ''longitude'' d row"
    if "jgi_gold_organism_row env row = Inr (Some d)"
    using that by (rule jgi_gold_organism_row_parsed)
  show "d \<in> set coll \<or> list_ex (item_parsed env d) (items_of json_file)"
    if "d \<in> set (snd (import_proposal_locations env json_file coll))"
    using that by (rule proposal_stored)
  show "d \<in> set coll \<or>
        list_ex (row_parsed env ''centroid_latitude'' ''centroid_longitude'' d) (rows_of csv_file)"
    if "d \<in> set (snd (import_ess_dive_packages env csv_file coll))"
    using that unfolding import_ess_dive_packages_def
    by (rule csv_stored) (rule ess_dive_row_parsed)
  show "d \<in> set coll \<or> list_ex (row_parsed env ''latitude'' ''longitude'' d) (rows_of csv_file)"
    if "d \<in> set (snd (import_nmdc_biosamples env csv_file coll))"
    using that unfolding import_nmdc_biosamples_def
    by (rule csv_stored) (rule nmdc_row_parsed)
  show "d \<in> set coll \<or> list_ex (row_parsed env ''latitude'' ''longitude'' d) (rows_of csv_file)"
    if "d \<in> set (snd (import_jgi_gold_biosamples env csv_file coll))"
    using that unfolding import_jgi_gold_biosamples_def
    by (rule csv_stored) (rule jgi_gold_biosample_row_parsed)
  show "d \<in> set coll \<or> list_ex (row_parsed env ''latitude'' ''longitude'' d) (rows_of csv_file)"
    if "d \<in> set (snd (import_jgi_gold_organisms env csv_file coll))"
    using that unfolding import_jgi_gold_organisms_def
    by (rule csv_stored) (rule jgi_gold_organism_row_parsed)
qed

theorem stored_documents_have_parsed_coordinates_witness:
  "nmdc_row \<lparr>strtod = \<lambda>s. None, strtol = \<lambda>s. None, accepts = \<lambda>d. True\<rparr>
     [(''biosample_id'', PStr ''nmdc:bsm-1''),
      (''latitude'', PFloat (Fin 46.3)), (''longitude'', PFloat (Fin (-119.3)))]
     = Inr (Some \<lparr>dataset_id = PStr ''nmdc:bsm-1'', system_name = ''NMDC'',
                   coordinates = \<lparr>geo_type = ''Point'',
                                  geo_coordinates = [Fin (-119.3), Fin 46.3]\<rparr>,
                   metadata = [(''source'', PStr ''NMDC-Biosample'')]\<rparr>)
   \<and> row_parsed \<lparr>strtod = \<lambda>s. None, strtol = \<lambda>s. None, accepts = \<lambda>d. True\<rparr>
       ''latitude'' ''longitude''
       \<lparr>dataset_id = PStr ''nmdc:bsm-1'', system_name = ''NMDC'',
        coordinates = \<lparr>geo_type = ''Point'', geo_coordinates = [Fin (-119.3), Fin 46.3]\<rparr>,
        metadata = [(''source'', PStr ''NMDC-Biosample'')]\<rparr>
       [(''biosample_id'', PStr ''nmdc:bsm-1''),
        (''latitude'', PFloat (Fin 46.3)), (''longitude'', PFloat (Fin (-119.3)))]"
proof -
  let ?env = "\<lparr>strtod = \<lambda>s. None, strtol = \<lambda>s. None, accepts = \<lambda>d. True\<rparr>"
  let ?row = "[(''biosample_id'', PStr ''nmdc:bsm-1''),
               (''latitude'', PFloat (Fin 46.3)), (''longitude'', PFloat (Fin (-119.3)))]"
  let ?d = "\<lparr>dataset_id = PStr ''nmdc:bsm-1'', system_name = ''NMDC'',
             coordinates = \<lparr>geo_type = ''Point'', geo_coordinates = [Fin (-119.3), Fin 46.3]\<rparr>,
             metadata = [(''source'', PStr ''NMDC-Biosample'')]\<rparr>"
  have built: "nmdc_row ?env ?row = Inr (Some ?d)"
    by (simp add: nmdc_row_def row_get_def and_then_def)
  from stored_documents_have_parsed_coordinates [where env = ?env and row = ?row and d = ?d] built
  have "row_parsed ?env ''latitude'' ''longitude'' ?d ?row"
    by blast
  with built show ?thesis
    by simp
qed

text \<open>
  Claim C1 as stated fails: a row of the NMDC file with latitude \<open>200\<close> is not dropped
  during adaptation, the adapter builds its document, and a store that takes what it is
  given holds a record whose coordinates are not valid.
\<close>

theorem out_of_range_latitude_stored:
  "for_each (nmdc_row \<lparr>strtod = \<lambda>s. None, strtol = \<lambda>s. None, accepts = \<lambda>d. True\<rparr>)
     [[(''biosample_id'', PStr ''nmdc:bsm-1''),
       (''latitude'', PFloat (Fin 200)), (''longitude'', PFloat (Fin 10))]] []
     = Inr [\<lparr>dataset_id = PStr ''nmdc:bsm-1'', system_name = ''NMDC'',
              coordinates = \<lparr>geo_type = ''Point'', geo_coordinates = [Fin 10, Fin 200]\<rparr>,
              metadata = [(''source'', PStr ''NMDC-Biosample'')]\<rparr>]
   \<and> import_nmdc_biosamples \<lparr>strtod = \<lambda>s. None, strtol = \<lambda>s. None, accepts = \<lambda>d. True\<rparr>
       (Inr [[(''biosample_id'', PStr ''nmdc:bsm-1''),
              (''latitude'', PFloat (Fin 200)), (''longitude'', PFloat (Fin 10))]]) []
     = (Inr 1, [\<lparr>dataset_id = PStr ''nmdc:bsm-1'', system_name = ''NMDC'',
                  coordinates = \<lparr>geo_type = ''Point'', geo_coordinates = [Fin 10, Fin 200]\<rparr>,
                  metadata = [(''source'', PStr ''NMDC-Biosample'')]\<rparr>])
   \<and> \<not> valid_coordinate_pair (Fin 10) (Fin 200)"
  by (simp add: import_nmdc_biosamples_def nmdc_row_def row_get_def and_then_def
      insert_documents_def insert_many_def valid_coordinate_pair_def)

section \<open>Properties of the importer's main\<close>

lemma guarded_step_disabled: "guarded_step False importer tc = tc"
  by (cases tc) simp

lemma fold_guarded_step:
  "fold (\<lambda>src. guarded_step (fst src) (snd src)) srcs (t, c) =
   (t + sum_list (fst (run_sources srcs c)), snd (run_sources srcs c))"
proof (induction srcs arbitrary: t c)
  case Nil
  show ?case by simp
next
  case (Cons src srcs)
  obtain enabled importer where src: "src = (enabled, importer)" by (cases src)
  obtain r c' where imp: "importer c = (r, c')" by (cases "importer c")
  show ?case
  proof (cases enabled)
    case False
    then show ?thesis using Cons.IH src by simp
  next
    case True
    then show ?thesis using Cons.IH src imp
      by (cases r) simp_all
  qed
qed

lemma main_steps:
  assumes "dir_exists dir" and "any_valid dir"
  shows "geo_importer_main env args dir coll =
    (let tc = fold (\<lambda>src. guarded_step (fst src) (snd src)) (configured_sources env args dir)
                (0, if clear_collection args then [] else coll)
     in \<lparr>status = 0, reported_total = Some (fst tc), store = snd tc\<rparr>)"
proof -
  have any: "list_ex (\<lambda>v. v) [validate_file (proposal_path dir),
                           validate_file (ess_dive_path dir),
                           validate_file (nmdc_path dir),
                           validate_file (jgi_biosample_path dir),
                           validate_file (jgi_organism_path dir)]"
    using assms(2) by (auto simp: any_valid_def)
  have step: "\<And>v imp t c. (if v then (case imp c of (Inr count, coll') \<Rightarrow> (t + count, coll')
                                   | (Inl e, coll') \<Rightarrow> (t, coll')) else (t, c))
              = guarded_step v imp (t, c)"
    by simp
  have main: "geo_importer_main env args dir coll =
     (if \<not> dir_exists dir then \<lparr>status = 1, reported_total = None, store = coll\<rparr>
      else
        let files_valid = [validate_file (proposal_path dir),
                           validate_file (ess_dive_path dir),
                           validate_file (nmdc_path dir),
                           validate_file (jgi_biosample_path dir),
                           validate_file (jgi_organism_path dir)]
        in
          if \<not> list_ex (\<lambda>v. v) files_valid
          then \<lparr>status = 1, reported_total = None, store = coll\<rparr>
          else
            let coll = (if clear_collection args then [] else coll);
                total_imported = 0;
                (total_imported, coll) =
                  guarded_step (files_valid ! 0)
                    (import_proposal_locations env (proposal_file dir)) (total_imported, coll);
                (total_imported, coll) =
                  guarded_step (files_valid ! 1)
                    (import_ess_dive_packages env (ess_dive_file dir)) (total_imported, coll);
                (total_imported, coll) =
                  guarded_step (files_valid ! 2)
                    (import_nmdc_biosamples env (nmdc_file dir)) (total_imported, coll);
                (total_imported, coll) =
                  (if \<not> skip_large_files args then
                     let (total_imported, coll) =
                           guarded_step (files_valid ! 3)
                             (import_jgi_gold_biosamples env (jgi_biosample_file dir))
                             (total_imported, coll)
                     in guarded_step (files_valid ! 4)
                          (import_jgi_gold_organisms env (jgi_organism_file dir))
                          (total_imported, coll)
                   else (total_imported, coll))
            in \<lparr>status = 0, reported_total = Some total_imported, store = coll\<rparr>)"
    unfolding geo_importer_main_def step ..
  show ?thesis
    unfolding main configured_sources_def
    using assms(1) any
    by (cases "skip_large_files args")
       (simp_all add: Let_def case_prod_beta guarded_step_disabled del: guarded_step.simps)
qed


lemma main_no_valid:
  "\<not> any_valid dir \<Longrightarrow>
   geo_importer_main env args dir coll = \<lparr>status = 1, reported_total = None, store = coll\<rparr>"
  by (simp add: geo_importer_main_def any_valid_def Let_def)

text \<open>
  Claim C4. With no valid source file the run ends with status 1 and touches nothing. With
  the data directory present and a valid file it ends with status 0; every enabled source
  is run on the collection the earlier ones left, an exception of one source is dropped
  and the next source runs, and the total reported is the sum of the counts of the sources
  that succeeded.
\<close>

theorem importer_main_isolates_sources:
  "(\<not> any_valid dir \<longrightarrow>
      geo_importer_main env args dir coll = \<lparr>status = 1, reported_total = None, store = coll\<rparr>)
   \<and> (dir_exists dir \<and> any_valid dir \<longrightarrow>
      geo_importer_main env args dir coll =
        \<lparr>status = 0,
         reported_total =
           Some (sum_list (fst (run_sources (configured_sources env args dir)
                                  (if clear_collection args then [] else coll)))),
         store = snd (run_sources (configured_sources env args dir)
                        (if clear_collection args then [] else coll))\<rparr>)"
  by (simp add: main_no_valid main_steps fold_guarded_step Let_def)

theorem importer_main_isolates_sources_witness:
  "geo_importer_main \<lparr>strtod = \<lambda>s. None, strtol = \<lambda>s. None, accepts = \<lambda>d. True\<rparr>
     \<lparr>clear_collection = False, skip_large_files = False\<rparr>
     \<lparr>dir_exists = True,
      proposal_path = \<lparr>path_exists = True, path_is_file = True, path_readable = True\<rparr>,
      proposal_file = Inl ValueError,
      ess_dive_path = \<lparr>path_exists = False, path_is_file = False, path_readable = False\<rparr>,
      ess_dive_file = Inl OSError,
      nmdc_path = \<lparr>path_exists = True, path_is_file = True, path_readable = True\<rparr>,
      nmdc_file = Inr [[(''biosample_id'', PStr ''nmdc:bsm-1''),
                        (''latitude'', PFloat (Fin 46.3)),
                        (''longitude'', PFloat (Fin (-119.3)))]],
      jgi_biosample_path = \<lparr>path_exists = False, path_is_file = False, path_readable = False\<rparr>,
      jgi_biosample_file = Inl OSError,
      jgi_organism_path = \<lparr>path_exists = False, path_is_file = False, path_readable = False\<rparr>,
      jgi_organism_file = Inl OSError\<rparr> []
   = \<lparr>status = 0, reported_total = Some 1,
      store = [\<lparr>dataset_id = PStr ''nmdc:bsm-1'', system_name = ''NMDC'',
                coordinates = \<lparr>geo_type = ''Point'',
                               geo_coordinates = [Fin (-119.3), Fin 46.3]\<rparr>,
                metadata = [(''source'', PStr ''NMDC-Biosample'')]\<rparr>]\<rparr>"
proof -
  let ?env = "\<lparr>strtod = \<lambda>s. None, strtol = \<lambda>s. None, accepts = \<lambda>d. True\<rparr>"
  let ?args = "\<lparr>clear_collection = False, skip_large_files = False\<rparr>"
  let ?dir = "\<lparr>dir_exists = True,
      proposal_path = \<lparr>path_exists = True, path_is_file = True, path_readable = True\<rparr>,
      proposal_file = Inl ValueError,
      ess_dive_path = \<lparr>path_exists = False, path_is_file = False, path_readable = False\<rparr>,
      ess_dive_file = Inl OSError,
      nmdc_path = \<lparr>path_exists = True, path_is_file = True, path_readable = True\<rparr>,
      nmdc_file = Inr [[(''biosample_id'', PStr ''nmdc:bsm-1''),
                        (''latitude'', PFloat (Fin 46.3)),
                        (''longitude'', PFloat (Fin (-119.3)))]],
      jgi_biosample_path = \<lparr>path_exists = False, path_is_file = False, path_readable = False\<rparr>,
      jgi_biosample_file = Inl OSError,
      jgi_organism_path = \<lparr>path_exists = False, path_is_file = False, path_readable = False\<rparr>,
      jgi_organism_file = Inl OSError\<rparr>"
  have valid: "dir_exists ?dir \<and> any_valid ?dir"
    by (simp add: any_valid_def validate_file_def)
  from importer_main_isolates_sources [where env = ?env and args = ?args and dir = ?dir
      and coll = "[]"] valid
  have "geo_importer_main ?env ?args ?dir [] =
        \<lparr>status = 0,
         reported_total =
           Some (sum_list (fst (run_sources (configured_sources ?env ?args ?dir)
                                  (if clear_collection ?args then [] else [])))),
         store = snd (run_sources (configured_sources ?env ?args ?dir)
                        (if clear_collection ?args then [] else []))\<rparr>"
    by blast
  also have "\<dots> = \<lparr>status = 0, reported_total = Some 1,
      store = [\<lparr>dataset_id = PStr ''nmdc:bsm-1'', system_name = ''NMDC'',
                coordinates = \<lparr>geo_type = ''Point'',
                               geo_coordinates = [Fin (-119.3), Fin 46.3]\<rparr>,
                metadata = [(''source'', PStr ''NMDC-Biosample'')]\<rparr>]\<rparr>"
    by (simp add: configured_sources_def validate_file_def import_proposal_locations_def
        import_nmdc_biosamples_def nmdc_row_def row_get_def and_then_def
        insert_documents_def insert_many_def)
  finally show ?thesis .
qed

section \<open>Properties of the queries\<close>

text \<open>
  Claim C3. \<open>get_stats\<close> reads \<open>proposal_count\<close>, a name that nothing binds (the count
  is bound as \<open>emsl_count\<close>): on every collection, the empty one too, it raises
  \<open>NameError\<close> and returns no statistics.
\<close>

theorem get_stats_raises_NameError:
  "get_stats coll = Inl (NameError ''proposal_count'') \<and>
   get_stats [] = Inl (NameError ''proposal_count'')"
  by (simp add: get_stats_def read_name_def and_then_def Let_def)

text \<open>
  Claim C8. A dataset lookup without \<open>--dataset-id\<close>, a box lookup without one of its
  four edges and a radius lookup without \<open>--lat\<close> or \<open>--lng\<close> end with status 1 and send
  no request to the store. When the parameters are given, the request carries them as
  given.
\<close>

theorem missing_parameter_is_validation_error:
  "(arg_action a = Dataset \<and> arg_dataset_id a = None
      \<longrightarrow> geo_query_main a coll = (Inr 1, []))
   \<and> (arg_action a = Box \<and>
        (arg_west a = None \<or> arg_south a = None \<or> arg_east a = None \<or> arg_north a = None)
      \<longrightarrow> geo_query_main a coll = (Inr 1, []))
   \<and> (arg_action a = Nearby \<and> (arg_lat a = None \<or> arg_lng a = None)
      \<longrightarrow> geo_query_main a coll = (Inr 1, []))
   \<and> (arg_action a = Box \<and> arg_west a = Some w \<and> arg_south a = Some s \<and>
        arg_east a = Some e \<and> arg_north a = Some n
      \<longrightarrow> geo_query_main a coll = (Inr 0, [find_in_box w s e n (arg_limit a)]))
   \<and> (arg_action a = Nearby \<and> arg_lat a = Some lat \<and> arg_lng a = Some lng
      \<longrightarrow> geo_query_main a coll = (Inr 0, [find_nearby lat lng (arg_distance a) (arg_limit a)]))"
  by (auto simp: geo_query_main_def split: option.splits)

theorem missing_parameter_is_validation_error_witness:
  "arg_action \<lparr>arg_action = Box, arg_dataset_id = None, arg_lat = None, arg_lng = None,
               arg_distance = 10000, arg_west = Some (Fin (-120)), arg_south = Some (Fin 46),
               arg_east = None, arg_north = Some (Fin 47), arg_limit = 1000\<rparr> = Box
   \<and> geo_query_main \<lparr>arg_action = Box, arg_dataset_id = None, arg_lat = None, arg_lng = None,
               arg_distance = 10000, arg_west = Some (Fin (-120)), arg_south = Some (Fin 46),
               arg_east = None, arg_north = Some (Fin 47), arg_limit = 1000\<rparr> [] = (Inr 1, [])"
  using missing_parameter_is_validation_error
    [where a = "\<lparr>arg_action = Box, arg_dataset_id = None, arg_lat = None, arg_lng = None,
               arg_distance = 10000, arg_west = Some (Fin (-120)), arg_south = Some (Fin 46),
               arg_east = None, arg_north = Some (Fin 47), arg_limit = 1000\<rparr>" and coll = "[]"]
  by simp

text \<open>
  Claim C9. \<open>find_by_dataset\<close> returns the documents of the collection that the equality
  filter on \<open>dataset_id\<close> holds of, and only those; for a document whose \<open>dataset_id\<close> is
  a string that is equality with the argument. Nothing caps the answer: when every
  document matches, the answer is the whole collection. The call leaves the collection as
  it was, and a second call gives the same answer.
\<close>

theorem find_by_dataset_exact_and_idempotent:
  "(d \<in> set (fst (find_by_dataset coll i))
      \<longleftrightarrow> d \<in> set coll \<and> field_matches (\<lambda>v. v = PStr i) (dataset_id d))
   \<and> (dataset_id d = PStr s \<longrightarrow> (d \<in> set (fst (find_by_dataset coll i)) \<longleftrightarrow> d \<in> set coll \<and> s = i))
   \<and> ((\<forall>x \<in> set coll. dataset_id x = PStr i) \<longrightarrow> fst (find_by_dataset coll i) = coll)
   \<and> snd (find_by_dataset coll i) = coll
   \<and> find_by_dataset (snd (find_by_dataset coll i)) i = find_by_dataset coll i"
  by (auto simp: find_by_dataset_def field_matches_def)

theorem find_by_dataset_exact_and_idempotent_witness:
  "dataset_id \<lparr>dataset_id = PStr ''P1'', system_name = ''EMSL'',
               coordinates = \<lparr>geo_type = ''Point'', geo_coordinates = [Fin (-119.3), Fin 46.3]\<rparr>,
               metadata = []\<rparr> = PStr ''P1''
   \<and> fst (find_by_dataset
        [\<lparr>dataset_id = PStr ''P1'', system_name = ''EMSL'',
          coordinates = \<lparr>geo_type = ''Point'', geo_coordinates = [Fin (-119.3), Fin 46.3]\<rparr>,
          metadata = []\<rparr>] ''P1'')
     = [\<lparr>dataset_id = PStr ''P1'', system_name = ''EMSL'',
         coordinates = \<lparr>geo_type = ''Point'', geo_coordinates = [Fin (-119.3), Fin 46.3]\<rparr>,
         metadata = []\<rparr>]"
proof -
  let ?d = "\<lparr>dataset_id = PStr ''P1'', system_name = ''EMSL'',
             coordinates = \<lparr>geo_type = ''Point'', geo_coordinates = [Fin (-119.3), Fin 46.3]\<rparr>,
             metadata = []\<rparr>"
  have all: "\<forall>x \<in> set [?d]. dataset_id x = PStr ''P1''"
    by simp
  from find_by_dataset_exact_and_idempotent [where coll = "[?d]" and i = "''P1''"] all
  have "fst (find_by_dataset [?d] ''P1'') = [?d]"
    by blast
  then show ?thesis
    by simp
qed

end
